theory Spec2Isabelle
  imports
    Main
    "HOL-Library.AList"
    "HOL-Library.Sublist"
    "HOL-Library.Char_ord"
    "HOL-Library.List_Lexorder"
begin

section \<open>Mission coordination core of \<^verbatim>\<open>scripts/server_ai_model.py\<close>\<close>

text \<open>
  The server keeps six module-level globals and mutates them from its Flask route
  handlers. The model passes them around as one record. Every handler is a function from
  the state before the request to the state after it, paired with what the handler hands
  back: the dictionary given to \<^verbatim>\<open>jsonify\<close>, or the exception that leaves the handler.
  An exception does not undo the assignments made before it, so the state is returned in
  both cases.
\<close>

subsection \<open>JSON values and Python dictionaries\<close>

text \<open>
  A parsed JSON body. A number with a fraction or an exponent is a Python float: a finite
  one is \<open>m * 2 ^ e\<close> for integers \<open>m\<close> and \<open>e\<close> (every double is of this form), and
  \<^verbatim>\<open>json\<close> also reads \<^verbatim>\<open>Infinity\<close> and \<^verbatim>\<open>NaN\<close>. A dictionary is an association list in
  insertion order:
  \<^verbatim>\<open>d[k] = v\<close> is \<^const>\<open>AList.update\<close> (it replaces the value in place when the key is
  there and appends the pair otherwise), \<^verbatim>\<open>d.get(k)\<close> is \<^const>\<open>map_of\<close>.
\<close>

datatype pyfloat = Finite int int | Infinite | NaN

datatype json =
    JNull
  | JBool bool
  | JInt int
  | JFloat pyfloat
  | JStr string
  | JList "json list"
  | JDict "(string \<times> json) list"

type_synonym pydict = "(string \<times> json) list"

datatype error = NameError | AttributeError | ValueError | TypeError | OverflowError

text \<open>\<^verbatim>\<open>d.get(k, default)\<close>\<close>

definition dict_get :: "pydict \<Rightarrow> string \<Rightarrow> json \<Rightarrow> json" where
  "dict_get d k dflt = (case map_of d k of None \<Rightarrow> dflt | Some v \<Rightarrow> v)"

text \<open>\<^verbatim>\<open>d.setdefault(k, v)\<close>, as the dictionary afterwards\<close>

definition setdefault :: "string \<Rightarrow> json \<Rightarrow> pydict \<Rightarrow> pydict" where
  "setdefault k v d = (case map_of d k of None \<Rightarrow> AList.update k v d | Some _ \<Rightarrow> d)"

text \<open>Python truth value of a parsed JSON value (\<^verbatim>\<open>x or {}\<close>)\<close>

fun truthy :: "json \<Rightarrow> bool" where
  "truthy JNull = False"
| "truthy (JBool b) = b"
| "truthy (JInt n) = (n \<noteq> 0)"
| "truthy (JFloat x) = (case x of Finite m e \<Rightarrow> m \<noteq> 0 | _ \<Rightarrow> True)"
| "truthy (JStr s) = (s \<noteq> [])"
| "truthy (JList xs) = (xs \<noteq> [])"
| "truthy (JDict d) = (d \<noteq> [])"

subsection \<open>\<^verbatim>\<open>int(idx)\<close>\<close>

text \<open>
  \<^verbatim>\<open>int\<close> of a string strips white space, reads an optional sign and then decimal digits,
  where single underscores may stand between digits; anything else raises
  \<^verbatim>\<open>ValueError\<close>. Strings are byte strings here, so the model covers ASCII text.
\<close>

definition is_space :: "char \<Rightarrow> bool" where
  "is_space c = (let n = (of_char c :: nat) in (9 \<le> n \<and> n \<le> 13) \<or> (28 \<le> n \<and> n \<le> 32))"

definition strip :: "string \<Rightarrow> string" where
  "strip s = rev (dropWhile is_space (rev (dropWhile is_space s)))"

definition digit_val :: "char \<Rightarrow> nat option" where
  "digit_val c = (let n = (of_char c :: nat) in if 48 \<le> n \<and> n \<le> 57 then Some (n - 48) else None)"

fun digits_value :: "nat \<Rightarrow> bool \<Rightarrow> string \<Rightarrow> nat option" where
  "digits_value acc prev [] = (if prev then Some acc else None)"
| "digits_value acc prev (c # cs) =
     (if c = CHR ''_'' then (if prev then digits_value acc False cs else None)
      else (case digit_val c of
              None \<Rightarrow> None
            | Some d \<Rightarrow> digits_value (10 * acc + d) True cs))"

definition int_of_str :: "string \<Rightarrow> int option" where
  "int_of_str s =
     (case strip s of
        [] \<Rightarrow> None
      | c # cs \<Rightarrow>
          if c = CHR ''-'' then map_option (\<lambda>n. - int n) (digits_value 0 False cs)
          else if c = CHR ''+'' then map_option int (digits_value 0 False cs)
          else map_option int (digits_value 0 False (c # cs)))"

text \<open>\<^verbatim>\<open>int\<close> of a float truncates towards zero; it raises on infinities and on NaN.\<close>

definition trunc_float :: "int \<Rightarrow> int \<Rightarrow> int" where
  "trunc_float m e =
     (if 0 \<le> e then m * 2 ^ nat e
      else if 0 \<le> m then m div 2 ^ nat (- e)
      else - ((- m) div 2 ^ nat (- e)))"

fun py_int :: "json \<Rightarrow> error + int" where
  "py_int (JInt n) = Inr n"
| "py_int (JFloat (Finite m e)) = Inr (trunc_float m e)"
| "py_int (JFloat Infinite) = Inl OverflowError"
| "py_int (JFloat NaN) = Inl ValueError"
| "py_int (JBool b) = Inr (if b then 1 else 0)"
| "py_int (JStr s) = (case int_of_str s of None \<Rightarrow> Inl ValueError | Some n \<Rightarrow> Inr n)"
| "py_int JNull = Inl TypeError"
| "py_int (JList xs) = Inl TypeError"
| "py_int (JDict d) = Inl TypeError"

subsection \<open>Global state\<close>

text \<open>
  The dictionaries that hold a status report are shared: \<^verbatim>\<open>LAST_STATUS = payload\<close> and
  \<^verbatim>\<open>mission["last_status"] = status_payload\<close> store the same object, and two handlers
  later write into \<^verbatim>\<open>LAST_STATUS\<close> in place. They therefore live in a store, and the
  globals hold their addresses. A mission dictionary is reachable only through
  \<^verbatim>\<open>MISSIONS\<close>, so it is kept there by value.
\<close>

type_synonym addr = nat

record mission =
  m_id :: string
  m_started_at :: string
  m_ended_at :: "string option"
  m_status :: string
  m_waypoints_reached :: "int set"
  m_waypoints_unreachable :: "int set"
  m_images_count :: int
  m_last_status :: "addr option"

record state =
  MISSION_STATE :: string
  LAST_STATUS :: addr
  CURRENT_MISSION_ID :: "string option"
  MISSIONS :: "(string \<times> mission) list"
  CONTROL_COMMAND :: string
  LAST_TERMINAL_STATUS :: "string option"
  heap :: "addr \<Rightarrow> pydict"
  next_addr :: addr

text \<open>The globals as the module initialises them; \<^verbatim>\<open>LAST_STATUS = {}\<close> is object 0.\<close>

definition init_state :: state where
  "init_state =
     \<lparr> MISSION_STATE = ''idle'', LAST_STATUS = 0, CURRENT_MISSION_ID = None, MISSIONS = [],
       CONTROL_COMMAND = ''none'', LAST_TERMINAL_STATUS = None,
       heap = (\<lambda>_. []), next_addr = 1 \<rparr>"

text \<open>
  What a request reads from outside the program: the clock, read once for the mission id
  and once for \<^verbatim>\<open>started_at\<close> in \<^verbatim>\<open>_start_new_mission\<close> and once in
  \<^verbatim>\<open>_update_mission_on_status\<close>, and the random \<^verbatim>\<open>uuid.uuid4().hex\<close>.
\<close>

record env =
  strftime_now :: string
  uuid4_hex :: string
  isoformat_created :: string
  isoformat_now :: string

subsection \<open>Helpers: missions\<close>

definition upper_char :: "char \<Rightarrow> char" where
  "upper_char c =
     (let n = (of_char c :: nat) in if 97 \<le> n \<and> n \<le> 122 then char_of (n - 32) else c)"

definition new_mission_id :: "env \<Rightarrow> string" where
  "new_mission_id e = ''mission_'' @ strftime_now e @ ''_'' @ map upper_char (take 6 (uuid4_hex e))"

definition start_new_mission :: "env \<Rightarrow> state \<Rightarrow> state \<times> string" where
  "start_new_mission e s =
     (let mission_id = new_mission_id e;
          now = isoformat_created e
      in (s\<lparr> MISSIONS :=
                AList.update mission_id
                  \<lparr> m_id = mission_id, m_started_at = now, m_ended_at = None,
                    m_status = ''pending'', m_waypoints_reached = {},
                    m_waypoints_unreachable = {}, m_images_count = 0,
                    m_last_status = None \<rparr>
                  (MISSIONS s),
              CURRENT_MISSION_ID := Some mission_id,
              LAST_TERMINAL_STATUS := None \<rparr>,
          mission_id))"

text \<open>\<^verbatim>\<open>not CURRENT_MISSION_ID\<close>: true of \<^verbatim>\<open>None\<close> and of the empty string\<close>

definition no_current :: "state \<Rightarrow> bool" where
  "no_current s = (case CURRENT_MISSION_ID s of None \<Rightarrow> True | Some c \<Rightarrow> c = [])"

text \<open>\<^verbatim>\<open>MISSIONS.get(CURRENT_MISSION_ID)\<close>\<close>

definition current_mission :: "state \<Rightarrow> (string \<times> mission) option" where
  "current_mission s =
     (case CURRENT_MISSION_ID s of
        None \<Rightarrow> None
      | Some c \<Rightarrow> (case map_of (MISSIONS s) c of None \<Rightarrow> None | Some m \<Rightarrow> Some (c, m)))"

text \<open>The mission dictionary is mutated in place: the registry holds the new value.\<close>

definition put_mission :: "string \<Rightarrow> mission \<Rightarrow> state \<Rightarrow> state" where
  "put_mission c m s = s\<lparr> MISSIONS := AList.update c m (MISSIONS s) \<rparr>"

text \<open>The two waypoint branches of \<^verbatim>\<open>_update_mission_on_status\<close>\<close>

definition waypoint_step :: "json \<Rightarrow> pydict \<Rightarrow> mission \<Rightarrow> error + mission" where
  "waypoint_step status status_payload m =
     (if status = JStr ''waypoint_reached'' then
        (case dict_get status_payload ''index'' JNull of
           JNull \<Rightarrow> Inr m
         | idx \<Rightarrow> (case py_int idx of
                     Inl err \<Rightarrow> Inl err
                   | Inr i \<Rightarrow> Inr (m\<lparr> m_waypoints_reached := insert i (m_waypoints_reached m) \<rparr>)))
      else if status = JStr ''waypoint_unreachable'' then
        (case dict_get status_payload ''index'' JNull of
           JNull \<Rightarrow> Inr m
         | idx \<Rightarrow> (case py_int idx of
                     Inl err \<Rightarrow> Inl err
                   | Inr i \<Rightarrow> Inr (m\<lparr> m_waypoints_unreachable := insert i (m_waypoints_unreachable m) \<rparr>)))
      else Inr m)"

text \<open>
  The last \<^verbatim>\<open>if/elif/elif\<close> of \<^verbatim>\<open>_update_mission_on_status\<close>. A status that is not a string
  has no \<^verbatim>\<open>startswith\<close>: the second test raises \<^verbatim>\<open>AttributeError\<close>.
\<close>

definition terminal_step ::
    "string \<Rightarrow> json \<Rightarrow> string \<Rightarrow> mission \<Rightarrow> state \<Rightarrow> state \<times> error option" where
  "terminal_step now status c m s =
     (if status = JStr ''mission_complete'' \<or> status = JStr ''mission_complete_after_abort'' then
        ((put_mission c (m\<lparr> m_status := ''complete'', m_ended_at := Some now \<rparr>) s)
           \<lparr> LAST_TERMINAL_STATUS := Some ''mission_complete'' \<rparr>, None)
      else
        (case status of
           JStr st \<Rightarrow>
             if prefix ''home_unreachable'' st then
               ((put_mission c (m\<lparr> m_status := ''home_unreachable'', m_ended_at := Some now \<rparr>) s)
                  \<lparr> LAST_TERMINAL_STATUS := Some ''home_unreachable'' \<rparr>, None)
             else if st = ''mission_aborted_by_operator'' then
               ((put_mission c (m\<lparr> m_status := ''aborted'', m_ended_at := Some now \<rparr>) s)
                  \<lparr> LAST_TERMINAL_STATUS := Some ''mission_aborted_by_operator'' \<rparr>, None)
             else (put_mission c m s, None)
         | _ \<Rightarrow> (put_mission c m s, Some AttributeError)))"

text \<open>
  \<^verbatim>\<open>_update_mission_on_status(status_payload)\<close>, with the payload object at address \<open>a\<close>.
  The result is the state and the exception raised, if any.
\<close>

definition update_mission_on_status :: "env \<Rightarrow> addr \<Rightarrow> state \<Rightarrow> state \<times> error option" where
  "update_mission_on_status e a s =
     (let status_payload = heap s a in
      if no_current s \<and> map_of status_payload ''status'' \<noteq> Some (JStr ''mission_started'')
      then (s, None)
      else
        (let s1 = (if no_current s then fst (start_new_mission e s) else s) in
         case current_mission s1 of
           None \<Rightarrow> (s1, None)
         | Some (c, mission) \<Rightarrow>
             (let m1 = mission\<lparr> m_last_status := Some a \<rparr>;
                  status = dict_get status_payload ''status'' (JStr []);
                  now = isoformat_now e;
                  m2 = (if status = JStr ''mission_started''
                        then m1\<lparr> m_status := ''running'' \<rparr> else m1)
              in case waypoint_step status status_payload m2 of
                   Inl err \<Rightarrow> (put_mission c m2 s1, Some err)
                 | Inr m3 \<Rightarrow> terminal_step now status c m3 s1)))"

definition register_image_for_current_mission :: "env \<Rightarrow> state \<Rightarrow> state" where
  "register_image_for_current_mission e s =
     (let s1 = (if no_current s then fst (start_new_mission e s) else s) in
      case current_mission s1 of
        None \<Rightarrow> s1
      | Some (c, mission) \<Rightarrow>
          (let m1 = mission\<lparr> m_images_count := m_images_count mission + 1 \<rparr>;
               m2 = (if m_status m1 = ''pending'' then m1\<lparr> m_status := ''running'' \<rparr> else m1)
           in put_mission c m2 s1))"

record summary =
  sum_id :: string
  sum_started_at :: string
  sum_ended_at :: "string option"
  sum_status :: string
  sum_waypoints_reached :: "int list"
  sum_waypoints_unreachable :: "int list"
  sum_images_count :: int

definition mission_summary :: "mission \<Rightarrow> summary" where
  "mission_summary m =
     \<lparr> sum_id = m_id m, sum_started_at = m_started_at m, sum_ended_at = m_ended_at m,
       sum_status = m_status m,
       sum_waypoints_reached = sorted_list_of_set (m_waypoints_reached m),
       sum_waypoints_unreachable = sorted_list_of_set (m_waypoints_unreachable m),
       sum_images_count = m_images_count m \<rparr>"

subsection \<open>Routes\<close>

text \<open>
  What a handler returns: the dictionary it passes to \<^verbatim>\<open>jsonify\<close>; for \<^verbatim>\<open>/missions\<close> the
  list under the key \<^verbatim>\<open>"missions"\<close>.
\<close>

datatype response = Json pydict | MissionsJson "summary list"

text \<open>\<^verbatim>\<open>CURRENT_MISSION_ID or "\<emdash>"\<close>; the dash is U+2014, three bytes in UTF-8.\<close>

definition em_dash :: string where
  "em_dash = [char_of (226::nat), char_of (128::nat), char_of (148::nat)]"

definition current_or :: "string \<Rightarrow> state \<Rightarrow> string" where
  "current_or dflt s = (case CURRENT_MISSION_ID s of None \<Rightarrow> dflt | Some c \<Rightarrow> if c = [] then dflt else c)"

definition json_of_opt :: "string option \<Rightarrow> json" where
  "json_of_opt x = (case x of None \<Rightarrow> JNull | Some v \<Rightarrow> JStr v)"

definition start_mission :: "env \<Rightarrow> state \<Rightarrow> state \<times> (error + response)" where
  "start_mission e s =
     (let s1 = s\<lparr> MISSION_STATE := ''start'' \<rparr>;
          s2 = fst (start_new_mission e s1);
          mission_id = snd (start_new_mission e s1);
          d1 = setdefault ''status'' (JStr ''mission_idle'') (heap s2 (LAST_STATUS s2));
          d2 = AList.update ''mission_id'' (JStr mission_id) d1;
          s3 = s2\<lparr> heap := (heap s2)(LAST_STATUS s2 := d2), LAST_TERMINAL_STATUS := None \<rparr>
      in (s3, Inr (Json [(''ok'', JBool True), (''mission_id'', JStr mission_id)])))"

definition mission_state :: "state \<Rightarrow> state \<times> (error + response)" where
  "mission_state s =
     (let st = MISSION_STATE s;
          s1 = (if MISSION_STATE s = ''start'' then s\<lparr> MISSION_STATE := ''idle'' \<rparr> else s)
      in (s1, Inr (Json [(''mission_state'', JStr st)])))"

definition abort_mission :: "state \<Rightarrow> state \<times> (error + response)" where
  "abort_mission s =
     (s\<lparr> CONTROL_COMMAND := ''abort'' \<rparr>,
      Inr (Json [(''ok'', JBool True), (''command'', JStr ''abort'')]))"

text \<open>
  \<^verbatim>\<open>return_home\<close> ends in \<^verbatim>\<open>return jupytext({...})\<close>. The module neither imports nor
  defines that name, so evaluating it raises \<^verbatim>\<open>NameError\<close>, after the command was stored.
\<close>

definition return_home :: "state \<Rightarrow> state \<times> (error + response)" where
  "return_home s = (s\<lparr> CONTROL_COMMAND := ''go_home'' \<rparr>, Inl NameError)"

definition control_state :: "state \<Rightarrow> state \<times> (error + response)" where
  "control_state s =
     (let cmd = CONTROL_COMMAND s
      in (s\<lparr> CONTROL_COMMAND := ''none'' \<rparr>, Inr (Json [(''command'', JStr cmd)])))"

text \<open>
  The body of a \<^verbatim>\<open>/status_update\<close> request: \<^verbatim>\<open>request.get_json(force=True)\<close> either raises
  (caught, and replaced by the sentinel report) or yields a JSON value.
\<close>

datatype body = Unparsable | Parsed json

definition read_payload :: "body \<Rightarrow> json" where
  "read_payload b =
     (case b of
        Unparsable \<Rightarrow> JDict [(''status'', JStr ''bad_status_payload'')]
      | Parsed j \<Rightarrow> if truthy j then j else JDict [])"

text \<open>
  The payload after the two \<^verbatim>\<open>setdefault\<close> calls, for a flag value \<open>ms\<close> and the state
  whose current mission id is read.
\<close>

definition defaulted :: "string \<Rightarrow> state \<Rightarrow> pydict \<Rightarrow> pydict" where
  "defaulted ms s payload =
     setdefault ''mission_id'' (JStr (current_or em_dash s))
       (setdefault ''mission_state'' (JStr ms) payload)"

text \<open>
  \<^verbatim>\<open>status_update\<close> from the read of \<^verbatim>\<open>status\<close> to \<^verbatim>\<open>LAST_STATUS = payload\<close>: the payload
  is a new object, filled in by the two \<^verbatim>\<open>setdefault\<close> calls.
\<close>

definition store_payload :: "pydict \<Rightarrow> state \<Rightarrow> state" where
  "store_payload payload s =
     (let status = dict_get payload ''status'' (JStr []);
          s1 = (if status = JStr ''mission_idle'' then s\<lparr> MISSION_STATE := ''idle'' \<rparr> else s);
          a = next_addr s1
      in s1\<lparr> heap := (heap s1)(a := defaulted (MISSION_STATE s1) s1 payload),
              next_addr := Suc a, LAST_STATUS := a \<rparr>)"

text \<open>
  A body that parses to something other than an object, and is not falsy, has no
  \<^verbatim>\<open>get\<close>: \<^verbatim>\<open>payload.get("status", "")\<close> raises \<^verbatim>\<open>AttributeError\<close> outside the \<^verbatim>\<open>try\<close>.
\<close>

definition status_update :: "env \<Rightarrow> body \<Rightarrow> state \<Rightarrow> state \<times> (error + response)" where
  "status_update e b s =
     (case read_payload b of
        JDict payload \<Rightarrow>
          (let s2 = store_payload payload s
           in case update_mission_on_status e (LAST_STATUS s2) s2 of
                (s3, None) \<Rightarrow> (s3, Inr (Json [(''ok'', JBool True)]))
              | (s3, Some err) \<Rightarrow> (s3, Inl err))
      | _ \<Rightarrow> (s, Inl AttributeError))"

definition last_status :: "state \<Rightarrow> state \<times> (error + response)" where
  "last_status s =
     (let d = heap s (LAST_STATUS s) in
      if d = [] then
        (s, Inr (Json [(''status'', JStr ''no_status_yet''),
                       (''mission_state'', JStr (MISSION_STATE s)),
                       (''mission_id'', JStr (current_or em_dash s)),
                       (''terminal_status'', json_of_opt (LAST_TERMINAL_STATUS s))]))
      else
        (let d1 = (if map_of d ''mission_state'' = None
                   then AList.update ''mission_state'' (JStr (MISSION_STATE s)) d else d);
             d2 = (if map_of d1 ''mission_id'' = None
                   then AList.update ''mission_id'' (JStr (current_or em_dash s)) d1 else d1);
             d3 = AList.update ''terminal_status'' (json_of_opt (LAST_TERMINAL_STATUS s)) d2
         in (s\<lparr> heap := (heap s)(LAST_STATUS s := d3) \<rparr>, Inr (Json d3))))"

text \<open>\<^verbatim>\<open>x["started_at"] or ""\<close>\<close>

definition started_key :: "summary \<Rightarrow> string" where
  "started_key x = (if sum_started_at x = [] then [] else sum_started_at x)"

text \<open>
  \<^verbatim>\<open>sorted(items, key=..., reverse=True)\<close>: the list is reversed, sorted by a stable
  ascending sort, and reversed again.
\<close>

definition sorted_reverse :: "('a \<Rightarrow> 'k::linorder) \<Rightarrow> 'a list \<Rightarrow> 'a list" where
  "sorted_reverse f xs = rev (sort_key f (rev xs))"

definition missions :: "state \<Rightarrow> state \<times> (error + response)" where
  "missions s =
     (let items = map (\<lambda>kv. mission_summary (snd kv)) (MISSIONS s);
          items_sorted = sorted_reverse started_key items
      in (s, Inr (MissionsJson items_sorted)))"

text \<open>
  \<^verbatim>\<open>upload_photo\<close> up to the mission id under which it files the image; saving the file
  and running the detector are not modelled.
\<close>

definition register_image :: "env \<Rightarrow> state \<Rightarrow> state \<times> string" where
  "register_image e s =
     (let s1 = register_image_for_current_mission e s
      in (s1, current_or ''nomission'' s1))"

subsection \<open>Sequences of requests\<close>

datatype op =
    StartMission
  | MissionState
  | AbortMission
  | ReturnHome
  | ControlState
  | StatusUpdate body
  | LastStatus
  | ListMissions
  | RegisterImage

text \<open>The state after one request. An exception ends the request, not the server.\<close>

fun exec :: "env \<times> op \<Rightarrow> state \<Rightarrow> state" where
  "exec (e, StartMission) s = fst (start_mission e s)"
| "exec (e, MissionState) s = fst (mission_state s)"
| "exec (e, AbortMission) s = fst (abort_mission s)"
| "exec (e, ReturnHome) s = fst (return_home s)"
| "exec (e, ControlState) s = fst (control_state s)"
| "exec (e, StatusUpdate b) s = fst (status_update e b s)"
| "exec (e, LastStatus) s = fst (last_status s)"
| "exec (e, ListMissions) s = fst (missions s)"
| "exec (e, RegisterImage) s = fst (register_image e s)"

fun run :: "(env \<times> op) list \<Rightarrow> state \<Rightarrow> state" where
  "run [] s = s"
| "run (x # xs) s = run xs (exec x s)"

text \<open>The answers of \<open>n\<close> polls in a row.\<close>

fun control_polls :: "nat \<Rightarrow> state \<Rightarrow> (error + response) list" where
  "control_polls 0 s = []"
| "control_polls (Suc n) s = snd (control_state s) # control_polls n (fst (control_state s))"

fun mission_polls :: "nat \<Rightarrow> state \<Rightarrow> (error + response) list" where
  "mission_polls 0 s = []"
| "mission_polls (Suc n) s = snd (mission_state s) # mission_polls n (fst (mission_state s))"

subsection \<open>Vocabulary of the properties\<close>

text \<open>The three final values of a mission's \<^verbatim>\<open>status\<close>.\<close>

definition terminal :: "string \<Rightarrow> bool" where
  "terminal st = (st = ''complete'' \<or> st = ''home_unreachable'' \<or> st = ''aborted'')"

text \<open>
  The status strings on which \<^verbatim>\<open>_update_mission_on_status\<close> assigns \<^verbatim>\<open>mission["status"]\<close>,
  and the requests that carry one.
\<close>

definition transition_status :: "json \<Rightarrow> bool" where
  "transition_status status =
     (case status of
        JStr st \<Rightarrow> st = ''mission_started'' \<or> st = ''mission_complete''
                   \<or> st = ''mission_complete_after_abort'' \<or> prefix ''home_unreachable'' st
                   \<or> st = ''mission_aborted_by_operator''
      | _ \<Rightarrow> False)"

fun transition_report :: "op \<Rightarrow> bool" where
  "transition_report (StatusUpdate b) =
     (case read_payload b of
        JDict payload \<Rightarrow> transition_status (dict_get payload ''status'' (JStr []))
      | _ \<Rightarrow> False)"
| "transition_report StartMission = False"
| "transition_report MissionState = False"
| "transition_report AbortMission = False"
| "transition_report ReturnHome = False"
| "transition_report ControlState = False"
| "transition_report LastStatus = False"
| "transition_report ListMissions = False"
| "transition_report RegisterImage = False"

text \<open>The status and the image counter filed under a mission id, if any.\<close>

definition status_of :: "state \<Rightarrow> string \<Rightarrow> string option" where
  "status_of s k = map_option m_status (map_of (MISSIONS s) k)"

definition images_of :: "state \<Rightarrow> string \<Rightarrow> int option" where
  "images_of s k = map_option m_images_count (map_of (MISSIONS s) k)"

text \<open>
  Two requests served within the same second: the clock reads agree, the random
  \<^verbatim>\<open>uuid4\<close> values differ. And the server after two \<^verbatim>\<open>/start_mission\<close> requests made so.
\<close>

definition env_a :: env where
  "env_a = \<lparr> strftime_now = ''20251210_123456'',
             uuid4_hex = ''abcd12ef5a6b4c7d8e9f0a1b2c3d4e5f'',
             isoformat_created = ''2025-12-10T12:34:56'',
             isoformat_now = ''2025-12-10T12:34:56'' \<rparr>"

definition env_b :: env where
  "env_b = \<lparr> strftime_now = ''20251210_123456'',
             uuid4_hex = ''0f3e9a77c1d24b6f8a90b1c2d3e4f506'',
             isoformat_created = ''2025-12-10T12:34:56'',
             isoformat_now = ''2025-12-10T12:34:56'' \<rparr>"

definition two_missions :: state where
  "two_missions = run [(env_a, StartMission), (env_b, StartMission)] init_state"

text \<open>Status reports as the robot posts them, with and without a waypoint index.\<close>

definition report :: "string \<Rightarrow> op" where
  "report st = StatusUpdate (Parsed (JDict [(''status'', JStr st)]))"

definition waypoint_report :: "string \<Rightarrow> int \<Rightarrow> op" where
  "waypoint_report st i = StatusUpdate (Parsed (JDict [(''status'', JStr st), (''index'', JInt i)]))"

text \<open>The fresh server after one photo upload, and after a mission that ran to completion.\<close>

definition one_image :: state where
  "one_image = run [(env_a, RegisterImage)] init_state"

definition completed_mission :: state where
  "completed_mission =
     run [(env_a, report ''mission_started''), (env_a, report ''mission_complete'')] init_state"

text \<open>The fresh server after the operator pressed start.\<close>

definition started_server :: state where
  "started_server = run [(env_a, StartMission)] init_state"

section \<open>Properties\<close>

subsection \<open>Basic facts\<close>

lemma new_mission_id_nonempty: "new_mission_id e \<noteq> []"
  by (simp add: new_mission_id_def)

lemma control_polls_none:
  "CONTROL_COMMAND s = ''none'' \<Longrightarrow>
   control_polls n s = replicate n (Inr (Json [(''command'', JStr ''none'')]))"
  by (induction n arbitrary: s) (simp_all add: control_state_def)

lemma mission_polls_idle:
  "MISSION_STATE s = ''idle'' \<Longrightarrow>
   mission_polls n s = replicate n (Inr (Json [(''mission_state'', JStr ''idle'')]))"
  by (induction n arbitrary: s) (simp_all add: mission_state_def)

lemma start_mission_flag: "MISSION_STATE (fst (start_mission e s)) = ''start''"
  by (simp add: start_mission_def start_new_mission_def Let_def)

lemma start_new_mission_current:
  "CURRENT_MISSION_ID (fst (start_new_mission e s)) = Some (new_mission_id e)"
  by (simp add: start_new_mission_def Let_def)

lemma waypoint_step_keeps:
  "waypoint_step st p m = Inr m' \<Longrightarrow>
   m_status m' = m_status m \<and> m_images_count m' = m_images_count m"
  by (auto simp: waypoint_step_def split: if_splits json.splits sum.splits)

lemma terminal_step_current:
  "CURRENT_MISSION_ID (fst (terminal_step now st c m s)) = CURRENT_MISSION_ID s"
  by (simp add: terminal_step_def put_mission_def split: json.splits)

lemma current_mission_SomeD:
  "current_mission s = Some (c, m) \<Longrightarrow> CURRENT_MISSION_ID s = Some c \<and> map_of (MISSIONS s) c = Some m"
  by (auto simp: current_mission_def split: option.splits)

lemma update_current:
  "CURRENT_MISSION_ID (fst (update_mission_on_status e a s)) = CURRENT_MISSION_ID s
   \<or> CURRENT_MISSION_ID (fst (update_mission_on_status e a s)) = Some (new_mission_id e)"
  by (auto simp: update_mission_on_status_def Let_def terminal_step_current put_mission_def
      start_new_mission_current split: option.splits sum.splits)

subsection \<open>Image counters are only incremented\<close>

lemma images_of_put:
  "images_of (put_mission c m s) k = (if k = c then Some (m_images_count m) else images_of s k)"
  by (simp add: images_of_def put_mission_def update_conv')

lemma images_of_start:
  "k \<noteq> new_mission_id e \<Longrightarrow> images_of (fst (start_new_mission e s)) k = images_of s k"
  by (simp add: images_of_def start_new_mission_def Let_def update_conv')

lemma images_of_terminal:
  "images_of (fst (terminal_step now st c m s)) k =
     (if k = c then Some (m_images_count m) else images_of s k)"
  by (simp add: terminal_step_def images_of_def put_mission_def update_conv' split: json.splits)

lemma current_mission_images:
  "current_mission s = Some (c, m) \<Longrightarrow> images_of s c = Some (m_images_count m)"
  by (auto simp: images_of_def dest: current_mission_SomeD)

lemma update_images:
  assumes "k \<noteq> new_mission_id e"
  shows "images_of (fst (update_mission_on_status e a s)) k = images_of s k"
  using assms
  by (auto simp: update_mission_on_status_def Let_def images_of_put images_of_start
      images_of_terminal split: option.splits sum.splits
      dest!: waypoint_step_keeps current_mission_images)

lemma register_images:
  assumes "k \<noteq> new_mission_id e" "images_of s k = Some n"
  shows "\<exists>n'. images_of (register_image_for_current_mission e s) k = Some n' \<and> n \<le> n'"
  using assms
  by (auto simp: register_image_for_current_mission_def Let_def images_of_put images_of_start
      split: option.splits dest!: current_mission_images)

subsection \<open>Where a mission's status is assigned\<close>

lemma status_of_put:
  "status_of (put_mission c m s) k = (if k = c then Some (m_status m) else status_of s k)"
  by (simp add: status_of_def put_mission_def update_conv')

lemma status_of_start:
  "k \<noteq> new_mission_id e \<Longrightarrow> status_of (fst (start_new_mission e s)) k = status_of s k"
  by (simp add: status_of_def start_new_mission_def Let_def update_conv')

lemma status_of_terminal_other:
  "k \<noteq> c \<Longrightarrow> status_of (fst (terminal_step now st c m s)) k = status_of s k"
  by (simp add: terminal_step_def status_of_def put_mission_def update_conv' split: json.splits)

lemma status_of_terminal_same:
  "\<not> transition_status st \<Longrightarrow>
   status_of (fst (terminal_step now st c m s)) c = Some (m_status m)"
  by (cases st)
     (auto simp: terminal_step_def status_of_def put_mission_def update_conv'
        transition_status_def)

lemma current_mission_status:
  "current_mission s = Some (c, m) \<Longrightarrow> status_of s c = Some (m_status m)"
  by (auto simp: status_of_def dest: current_mission_SomeD)

lemma update_status_other:
  assumes "k \<noteq> new_mission_id e" "CURRENT_MISSION_ID s \<noteq> Some k"
  shows "status_of (fst (update_mission_on_status e a s)) k = status_of s k"
  using assms
  by (auto simp: update_mission_on_status_def Let_def status_of_put status_of_start
      status_of_terminal_other start_new_mission_current
      split: option.splits sum.splits dest!: current_mission_SomeD)

lemma not_transition_started:
  "\<not> transition_status (dict_get p ''status'' (JStr [])) \<Longrightarrow>
   map_of p ''status'' \<noteq> Some (JStr ''mission_started'')
   \<and> dict_get p ''status'' (JStr []) \<noteq> JStr ''mission_started''"
  by (auto simp: transition_status_def dict_get_def)

lemma update_status_quiet:
  assumes "\<not> transition_status (dict_get (heap s a) ''status'' (JStr []))"
  shows "status_of (fst (update_mission_on_status e a s)) k = status_of s k"
proof -
  note ns = not_transition_started[OF assms]
  show ?thesis
  proof (cases "no_current s")
    case True
    then show ?thesis using ns by (simp add: update_mission_on_status_def Let_def)
  next
    case False
    show ?thesis
    proof (cases "current_mission s")
      case None
      then show ?thesis using False by (simp add: update_mission_on_status_def Let_def)
    next
      case (Some cm)
      obtain c m where cm: "cm = (c, m)" by (cases cm)
      have sc: "status_of s c = Some (m_status m)"
        using Some cm by (simp add: current_mission_status)
      show ?thesis
        using False Some cm ns assms sc
        by (cases "k = c")
           (auto simp: update_mission_on_status_def Let_def status_of_put
             status_of_terminal_other status_of_terminal_same
             split: sum.splits dest!: waypoint_step_keeps)
    qed
  qed
qed

lemma register_status:
  assumes "k \<noteq> new_mission_id e" "status_of s k = Some st" "st \<noteq> ''pending''"
  shows "status_of (register_image_for_current_mission e s) k = Some st"
  using assms
  by (auto simp: register_image_for_current_mission_def Let_def status_of_put status_of_start
      split: option.splits dest!: current_mission_status)

lemma register_current:
  "CURRENT_MISSION_ID (register_image_for_current_mission e s) = CURRENT_MISSION_ID s
   \<or> CURRENT_MISSION_ID (register_image_for_current_mission e s) = Some (new_mission_id e)"
  by (auto simp: register_image_for_current_mission_def Let_def put_mission_def
      start_new_mission_current split: option.splits)

subsection \<open>Requests and sequences of requests\<close>

lemma store_payload_frame:
  "MISSIONS (store_payload p s) = MISSIONS s"
  "CURRENT_MISSION_ID (store_payload p s) = CURRENT_MISSION_ID s"
  "heap (store_payload p s) (LAST_STATUS (store_payload p s)) =
     defaulted (MISSION_STATE (store_payload p s)) s p"
  by (simp_all add: store_payload_def Let_def defaulted_def current_or_def)

lemma status_update_state:
  "fst (status_update e b s) =
     (case read_payload b of
        JDict p \<Rightarrow> fst (update_mission_on_status e (LAST_STATUS (store_payload p s))
                        (store_payload p s))
      | _ \<Rightarrow> s)"
  by (simp add: status_update_def Let_def split: json.splits prod.splits option.splits)

lemma defaulted_status: "dict_get (defaulted ms s p) ''status'' d = dict_get p ''status'' d"
  by (simp add: defaulted_def setdefault_def dict_get_def update_conv' split: option.splits)

lemma start_mission_frame:
  "MISSIONS (fst (start_mission e s)) = MISSIONS (fst (start_new_mission e s))"
  "CURRENT_MISSION_ID (fst (start_mission e s)) = Some (new_mission_id e)"
  by (simp_all add: start_mission_def start_new_mission_def Let_def)

lemma simple_frames:
  "MISSIONS (fst (mission_state s)) = MISSIONS s"
  "MISSIONS (fst (abort_mission s)) = MISSIONS s"
  "MISSIONS (fst (return_home s)) = MISSIONS s"
  "MISSIONS (fst (control_state s)) = MISSIONS s"
  "MISSIONS (fst (last_status s)) = MISSIONS s"
  "MISSIONS (fst (missions s)) = MISSIONS s"
  "CURRENT_MISSION_ID (fst (mission_state s)) = CURRENT_MISSION_ID s"
  "CURRENT_MISSION_ID (fst (abort_mission s)) = CURRENT_MISSION_ID s"
  "CURRENT_MISSION_ID (fst (return_home s)) = CURRENT_MISSION_ID s"
  "CURRENT_MISSION_ID (fst (control_state s)) = CURRENT_MISSION_ID s"
  "CURRENT_MISSION_ID (fst (last_status s)) = CURRENT_MISSION_ID s"
  "CURRENT_MISSION_ID (fst (missions s)) = CURRENT_MISSION_ID s"
  by (simp_all add: mission_state_def abort_mission_def return_home_def control_state_def
      last_status_def missions_def Let_def)

lemma images_frames:
  "images_of (fst (mission_state s)) k = images_of s k"
  "images_of (fst (abort_mission s)) k = images_of s k"
  "images_of (fst (return_home s)) k = images_of s k"
  "images_of (fst (control_state s)) k = images_of s k"
  "images_of (fst (last_status s)) k = images_of s k"
  "images_of (fst (missions s)) k = images_of s k"
  "images_of (store_payload p s) k = images_of s k"
  "images_of (fst (start_mission e s)) k = images_of (fst (start_new_mission e s)) k"
  by (simp_all add: images_of_def simple_frames store_payload_frame start_mission_frame)

lemma status_frames:
  "status_of (fst (mission_state s)) k = status_of s k"
  "status_of (fst (abort_mission s)) k = status_of s k"
  "status_of (fst (return_home s)) k = status_of s k"
  "status_of (fst (control_state s)) k = status_of s k"
  "status_of (fst (last_status s)) k = status_of s k"
  "status_of (fst (missions s)) k = status_of s k"
  "status_of (store_payload p s) k = status_of s k"
  "status_of (fst (start_mission e s)) k = status_of (fst (start_new_mission e s)) k"
  by (simp_all add: status_of_def simple_frames store_payload_frame start_mission_frame)

lemma exec_images:
  assumes "new_mission_id (fst x) \<noteq> k" "images_of s k = Some n"
  shows "\<exists>n'. images_of (exec x s) k = Some n' \<and> n \<le> n'"
proof -
  obtain e o' where x: "x = (e, o')" by (cases x)
  have k: "k \<noteq> new_mission_id e" using assms(1) x by auto
  show ?thesis
  proof (cases o')
    case StartMission
    then show ?thesis using assms(2) k x
      by (simp add: images_frames images_of_start)
  next
    case (StatusUpdate b)
    then show ?thesis using assms(2) k x
      by (simp add: status_update_state update_images images_frames split: json.splits)
  next
    case RegisterImage
    then show ?thesis using register_images[OF k assms(2)] x
      by (simp add: register_image_def Let_def)
  qed (use assms(2) x in \<open>simp_all add: images_frames\<close>)
qed

lemma run_images:
  assumes "\<forall>x\<in>set ops. new_mission_id (fst x) \<noteq> k" "images_of s k = Some n"
  shows "\<exists>n'. images_of (run ops s) k = Some n' \<and> n \<le> n'"
  using assms
proof (induction ops arbitrary: s n)
  case Nil
  then show ?case by simp
next
  case (Cons x xs)
  from Cons.prems obtain n1 where n1: "images_of (exec x s) k = Some n1" "n \<le> n1"
    using exec_images[of x k s n] by auto
  from Cons.IH[OF _ n1(1)] Cons.prems(1)
  obtain n' where "images_of (run xs (exec x s)) k = Some n'" "n1 \<le> n'" by auto
  with n1 show ?case by auto
qed

lemma exec_current:
  "CURRENT_MISSION_ID (exec x s) = CURRENT_MISSION_ID s
   \<or> CURRENT_MISSION_ID (exec x s) = Some (new_mission_id (fst x))"
proof -
  obtain e o' where x: "x = (e, o')" by (cases x)
  show ?thesis
  proof (cases o')
    case (StatusUpdate b)
    then show ?thesis
      using x update_current[of e "LAST_STATUS (store_payload p s)" "store_payload p s" for p]
      by (auto simp add: status_update_state store_payload_frame split: json.splits)
  next
    case RegisterImage
    then show ?thesis using register_current[of e s] x
      by (simp add: register_image_def Let_def)
  qed (use x in \<open>simp_all add: simple_frames start_mission_frame\<close>)
qed

lemma exec_status:
  assumes "new_mission_id (fst x) \<noteq> k" "status_of s k = Some st" "st \<noteq> ''pending''"
      and "CURRENT_MISSION_ID s \<noteq> Some k \<or> \<not> transition_report (snd x)"
  shows "status_of (exec x s) k = Some st"
proof -
  obtain e o' where x: "x = (e, o')" by (cases x)
  have k: "k \<noteq> new_mission_id e" using assms(1) x by auto
  show ?thesis
  proof (cases o')
    case StartMission
    then show ?thesis using assms(2) k x
      by (simp add: status_frames status_of_start)
  next
    case (StatusUpdate b)
    show ?thesis
    proof (cases "read_payload b")
      case (JDict p)
      let ?s2 = "store_payload p s"
      have s2: "status_of ?s2 k = Some st"
        using assms(2) by (simp add: status_frames)
      have "status_of (fst (update_mission_on_status e (LAST_STATUS ?s2) ?s2)) k = status_of ?s2 k"
      proof (cases "CURRENT_MISSION_ID s \<noteq> Some k")
        case True
        then show ?thesis using k by (simp add: update_status_other store_payload_frame)
      next
        case False
        then have "\<not> transition_status (dict_get p ''status'' (JStr []))"
          using assms(4) x StatusUpdate JDict by simp
        then show ?thesis
          by (intro update_status_quiet) (simp add: store_payload_frame defaulted_status)
      qed
      then show ?thesis using s2 x StatusUpdate JDict by (simp add: status_update_state)
    qed (use assms(2) x StatusUpdate in \<open>simp_all add: status_update_state\<close>)
  next
    case RegisterImage
    then show ?thesis using register_status[OF k assms(2,3)] x
      by (simp add: register_image_def Let_def)
  qed (use assms(2) x in \<open>simp_all add: status_frames\<close>)
qed

lemma run_status_not_current:
  assumes "\<forall>x\<in>set ops. new_mission_id (fst x) \<noteq> k" "status_of s k = Some st"
      and "st \<noteq> ''pending''" "CURRENT_MISSION_ID s \<noteq> Some k"
  shows "status_of (run ops s) k = Some st"
  using assms
proof (induction ops arbitrary: s)
  case Nil
  then show ?case by simp
next
  case (Cons x xs)
  have 1: "status_of (exec x s) k = Some st"
    using Cons.prems by (intro exec_status) auto
  have 2: "CURRENT_MISSION_ID (exec x s) \<noteq> Some k"
    using exec_current[of x s] Cons.prems by auto
  show ?case using Cons.IH[OF _ 1 Cons.prems(3) 2] Cons.prems(1) by simp
qed

lemma run_status_quiet:
  assumes "\<forall>x\<in>set ops. new_mission_id (fst x) \<noteq> k" "status_of s k = Some st"
      and "st \<noteq> ''pending''" "\<forall>x\<in>set ops. \<not> transition_report (snd x)"
  shows "status_of (run ops s) k = Some st"
  using assms
proof (induction ops arbitrary: s)
  case Nil
  then show ?case by simp
next
  case (Cons x xs)
  have 1: "status_of (exec x s) k = Some st"
    using Cons.prems by (intro exec_status) auto
  show ?case using Cons.IH[OF _ 1 Cons.prems(3)] Cons.prems(1,4) by simp
qed

subsection \<open>The one-shot mailboxes\<close>

text \<open>
  C1. After \<^verbatim>\<open>/abort_mission\<close>, of any number of \<^verbatim>\<open>/control_state\<close> polls in a row the first
  answers \<^verbatim>\<open>abort\<close> and every later one \<^verbatim>\<open>none\<close>. After \<^verbatim>\<open>/start_mission\<close>, of any
  number of \<^verbatim>\<open>/mission_state\<close> polls in a row the first answers \<^verbatim>\<open>start\<close> and every later
  one \<^verbatim>\<open>idle\<close>. Both hold from every state.
\<close>

theorem one_shot_mailbox:
  "control_polls (Suc n) (fst (abort_mission s)) =
     Inr (Json [(''command'', JStr ''abort'')])
       # replicate n (Inr (Json [(''command'', JStr ''none'')]))
   \<and> mission_polls (Suc n) (fst (start_mission e s)) =
     Inr (Json [(''mission_state'', JStr ''start'')])
       # replicate n (Inr (Json [(''mission_state'', JStr ''idle'')]))"
proof
  show "control_polls (Suc n) (fst (abort_mission s)) =
     Inr (Json [(''command'', JStr ''abort'')])
       # replicate n (Inr (Json [(''command'', JStr ''none'')]))"
    by (simp add: control_state_def abort_mission_def control_polls_none)
next
  have "MISSION_STATE (fst (mission_state (fst (start_mission e s)))) = ''idle''"
    by (simp add: mission_state_def start_mission_flag)
  then show "mission_polls (Suc n) (fst (start_mission e s)) =
     Inr (Json [(''mission_state'', JStr ''start'')])
       # replicate n (Inr (Json [(''mission_state'', JStr ''idle'')]))"
    by (simp add: mission_polls_idle) (simp add: mission_state_def start_mission_flag)
qed

subsection \<open>Handlers that raise\<close>

text \<open>
  C2. The claim that every operation returns a result fails on the code. From every
  state \<^verbatim>\<open>/return_home\<close> stores the command and then raises \<^verbatim>\<open>NameError\<close>, where its sibling
  \<^verbatim>\<open>/abort_mission\<close> returns its acknowledgement. And a \<^verbatim>\<open>waypoint_reached\<close> report whose
  index is the string \<^verbatim>\<open>abc\<close>, sent after a \<^verbatim>\<open>mission_started\<close> report to the freshly started
  server, raises \<^verbatim>\<open>ValueError\<close>.
\<close>

theorem return_home_raises:
  "snd (return_home s) = Inl NameError
   \<and> CONTROL_COMMAND (fst (return_home s)) = ''go_home''
   \<and> snd (abort_mission s) = Inr (Json [(''ok'', JBool True), (''command'', JStr ''abort'')])
   \<and> snd (status_update e
            (Parsed (JDict [(''status'', JStr ''waypoint_reached''), (''index'', JStr ''abc'')]))
            (fst (status_update e' (Parsed (JDict [(''status'', JStr ''mission_started'')]))
                    init_state)))
       = Inl ValueError"
  by (simp add: return_home_def abort_mission_def status_update_def store_payload_def read_payload_def
      dict_get_def init_state_def update_mission_on_status_def no_current_def defaulted_def
      setdefault_def start_new_mission_def current_mission_def Let_def waypoint_step_def
      terminal_step_def put_mission_def int_of_str_def strip_def is_space_def digit_val_def
      current_or_def new_mission_id_nonempty)

subsection \<open>The mission list\<close>

lemma id_a: "new_mission_id env_a = ''mission_20251210_123456_ABCD12''"
  by code_simp

lemma id_b: "new_mission_id env_b = ''mission_20251210_123456_0F3E9A''"
  by code_simp

lemma sorted_reverse_desc: "sorted (rev (map f (sorted_reverse f xs)))"
  by (simp add: sorted_reverse_def rev_map)

lemma sorted_reverse_stable:
  "filter (\<lambda>x. f x = t) (sorted_reverse f xs) = filter (\<lambda>x. f x = t) xs"
  by (simp add: sorted_reverse_def rev_filter[symmetric] sort_key_stable)

lemma sorted_reverse_length: "length (sorted_reverse f xs) = length xs"
  by (simp add: sorted_reverse_def)

lemma two_missions_registry:
  "MISSIONS two_missions =
    [(''mission_20251210_123456_ABCD12'',
      \<lparr> m_id = ''mission_20251210_123456_ABCD12'', m_started_at = ''2025-12-10T12:34:56'',
        m_ended_at = None, m_status = ''pending'', m_waypoints_reached = {},
        m_waypoints_unreachable = {}, m_images_count = 0, m_last_status = None \<rparr>),
     (''mission_20251210_123456_0F3E9A'',
      \<lparr> m_id = ''mission_20251210_123456_0F3E9A'', m_started_at = ''2025-12-10T12:34:56'',
        m_ended_at = None, m_status = ''pending'', m_waypoints_reached = {},
        m_waypoints_unreachable = {}, m_images_count = 0, m_last_status = None \<rparr>)]"
  by (simp add: two_missions_def start_mission_def start_new_mission_def Let_def id_a id_b
      init_state_def)
     (simp add: env_a_def env_b_def)

text \<open>
  C5, as the code has it. \<^verbatim>\<open>/missions\<close> leaves the state alone and returns one summary per
  registered mission, in descending order of \<^verbatim>\<open>started_at\<close>; the summaries with the same
  \<^verbatim>\<open>started_at\<close> stand in the order in which their missions were registered (the earlier
  one first), since \<^verbatim>\<open>sorted(..., reverse=True)\<close> keeps the order of equal keys.
\<close>

theorem missions_order:
  "\<exists>xs. missions s = (s, Inr (MissionsJson xs))
      \<and> sorted (rev (map sum_started_at xs))
      \<and> length xs = length (MISSIONS s)
      \<and> (\<forall>t. filter (\<lambda>x. sum_started_at x = t) xs =
              filter (\<lambda>x. sum_started_at x = t)
                (map (\<lambda>kv. mission_summary (snd kv)) (MISSIONS s)))"
proof -
  have k: "started_key = sum_started_at" by (rule ext) (simp add: started_key_def)
  show ?thesis
    using sorted_reverse_desc[of sum_started_at]
    by (simp add: missions_def Let_def k sorted_reverse_stable sorted_reverse_length)
qed

theorem missions_order_witness:
  "\<exists>xs. missions two_missions = (two_missions, Inr (MissionsJson xs))
      \<and> sorted (rev (map sum_started_at xs))
      \<and> length xs = 2"
  using missions_order[of two_missions]
  by (auto simp: two_missions_registry)

text \<open>
  C5 as stated fails: of two missions started within the same second, \<^verbatim>\<open>/missions\<close> lists
  the one created first before the one created later.
\<close>

theorem missions_tie_counterexample:
  "snd (missions two_missions) =
     Inr (MissionsJson
       [\<lparr> sum_id = ''mission_20251210_123456_ABCD12'', sum_started_at = ''2025-12-10T12:34:56'',
          sum_ended_at = None, sum_status = ''pending'', sum_waypoints_reached = [],
          sum_waypoints_unreachable = [], sum_images_count = 0 \<rparr>,
        \<lparr> sum_id = ''mission_20251210_123456_0F3E9A'', sum_started_at = ''2025-12-10T12:34:56'',
          sum_ended_at = None, sum_status = ''pending'', sum_waypoints_reached = [],
          sum_waypoints_unreachable = [], sum_images_count = 0 \<rparr>])"
  by (simp add: missions_def Let_def two_missions_registry mission_summary_def
      sorted_reverse_def started_key_def)

subsection \<open>A complete mission\<close>

lemmas unfold_all = status_update_def store_payload_def read_payload_def
      dict_get_def update_mission_on_status_def no_current_def defaulted_def
      setdefault_def start_new_mission_def current_mission_def Let_def waypoint_step_def
      terminal_step_def put_mission_def current_or_def new_mission_id_nonempty
      register_image_def register_image_for_current_mission_def report_def waypoint_report_def

text \<open>
  C4. On a server with no mission yet, the five reports \<^verbatim>\<open>mission_started\<close>,
  \<^verbatim>\<open>waypoint_reached\<close> 1, \<^verbatim>\<open>waypoint_reached\<close> 3, \<^verbatim>\<open>waypoint_unreachable\<close> 2 and
  \<^verbatim>\<open>mission_complete\<close> leave exactly one mission in the registry, the one created by the
  first report: its status is \<^verbatim>\<open>complete\<close>, its end time is the clock read of the last report,
  its summary lists the reached waypoints as \<open>[1, 3]\<close> and the unreachable ones as \<open>[2]\<close>,
  and the terminal status of the process is \<^verbatim>\<open>mission_complete\<close>.
\<close>

theorem report_sequence_complete:
  assumes "MISSIONS s = []" and "CURRENT_MISSION_ID s = None"
  shows "(let s5 = run [(e1, report ''mission_started''),
                       (e2, waypoint_report ''waypoint_reached'' 1),
                       (e3, waypoint_report ''waypoint_reached'' 3),
                       (e4, waypoint_report ''waypoint_unreachable'' 2),
                       (e5, report ''mission_complete'')] s
         in MISSIONS s5 =
              [(new_mission_id e1,
                \<lparr> m_id = new_mission_id e1, m_started_at = isoformat_created e1,
                  m_ended_at = Some (isoformat_now e5), m_status = ''complete'',
                  m_waypoints_reached = {1, 3}, m_waypoints_unreachable = {2},
                  m_images_count = 0, m_last_status = Some (next_addr s + 4) \<rparr>)]
          \<and> snd (missions s5) =
              Inr (MissionsJson
                [\<lparr> sum_id = new_mission_id e1, sum_started_at = isoformat_created e1,
                   sum_ended_at = Some (isoformat_now e5), sum_status = ''complete'',
                   sum_waypoints_reached = [1, 3], sum_waypoints_unreachable = [2],
                   sum_images_count = 0 \<rparr>])
          \<and> CURRENT_MISSION_ID s5 = Some (new_mission_id e1)
          \<and> LAST_TERMINAL_STATUS s5 = Some ''mission_complete'')"
proof -
  define s5 where "s5 = run [(e1, report ''mission_started''),
                       (e2, waypoint_report ''waypoint_reached'' 1),
                       (e3, waypoint_report ''waypoint_reached'' 3),
                       (e4, waypoint_report ''waypoint_unreachable'' 2),
                       (e5, report ''mission_complete'')] s"
  have 1: "MISSIONS s5 =
              [(new_mission_id e1,
                \<lparr> m_id = new_mission_id e1, m_started_at = isoformat_created e1,
                  m_ended_at = Some (isoformat_now e5), m_status = ''complete'',
                  m_waypoints_reached = {1, 3}, m_waypoints_unreachable = {2},
                  m_images_count = 0, m_last_status = Some (next_addr s + 4) \<rparr>)]"
    using assms unfolding s5_def by (simp add: unfold_all insert_commute)
  have 2: "CURRENT_MISSION_ID s5 = Some (new_mission_id e1)"
    using assms unfolding s5_def by (simp add: unfold_all)
  have 3: "LAST_TERMINAL_STATUS s5 = Some ''mission_complete''"
    using assms unfolding s5_def by (simp add: unfold_all)
  have 4: "snd (missions s5) =
              Inr (MissionsJson
                [\<lparr> sum_id = new_mission_id e1, sum_started_at = isoformat_created e1,
                   sum_ended_at = Some (isoformat_now e5), sum_status = ''complete'',
                   sum_waypoints_reached = [1, 3], sum_waypoints_unreachable = [2],
                   sum_images_count = 0 \<rparr>])"
    by (simp add: missions_def mission_summary_def sorted_reverse_def Let_def 1)
  show ?thesis
    unfolding Let_def s5_def[symmetric] using 1 2 3 4 by simp
qed

theorem report_sequence_complete_witness:
  "MISSIONS init_state = [] \<and> CURRENT_MISSION_ID init_state = None
   \<and> snd (missions (run [(env_a, report ''mission_started''),
                       (env_a, waypoint_report ''waypoint_reached'' 1),
                       (env_a, waypoint_report ''waypoint_reached'' 3),
                       (env_a, waypoint_report ''waypoint_unreachable'' 2),
                       (env_b, report ''mission_complete'')] init_state)) =
      Inr (MissionsJson
                [\<lparr> sum_id = ''mission_20251210_123456_ABCD12'',
                   sum_started_at = ''2025-12-10T12:34:56'',
                   sum_ended_at = Some ''2025-12-10T12:34:56'', sum_status = ''complete'',
                   sum_waypoints_reached = [1, 3], sum_waypoints_unreachable = [2],
                   sum_images_count = 0 \<rparr>])"
proof -
  have h: "MISSIONS init_state = []" "CURRENT_MISSION_ID init_state = None"
    by (simp_all add: init_state_def)
  have e: "isoformat_created env_a = ''2025-12-10T12:34:56''"
    "isoformat_now env_b = ''2025-12-10T12:34:56''"
    by (simp_all add: env_a_def env_b_def)
  show ?thesis
    using report_sequence_complete[OF h, of env_a env_a env_a env_a env_b] h
    unfolding Let_def id_a e by simp
qed

subsection \<open>Registering images\<close>

text \<open>
  C7. On a server with no mission yet, the first \<^verbatim>\<open>_register_image_for_current_mission\<close>
  creates the only mission of the registry, with one image and status \<^verbatim>\<open>running\<close>; after
  three calls the registry still holds that one mission, with three images. And the image
  counter filed under a mission id never decreases over any sequence of requests, as long
  as no request generates that id again (\<^verbatim>\<open>_start_new_mission\<close> would then file a new
  mission under it).
\<close>

theorem register_image_counts:
  "(MISSIONS s = [] \<and> CURRENT_MISSION_ID s = None \<longrightarrow>
      MISSIONS (run [(e1, RegisterImage)] s) =
        [(new_mission_id e1,
          \<lparr> m_id = new_mission_id e1, m_started_at = isoformat_created e1, m_ended_at = None,
            m_status = ''running'', m_waypoints_reached = {}, m_waypoints_unreachable = {},
            m_images_count = 1, m_last_status = None \<rparr>)]
    \<and> MISSIONS (run [(e1, RegisterImage), (e2, RegisterImage), (e3, RegisterImage)] s) =
        [(new_mission_id e1,
          \<lparr> m_id = new_mission_id e1, m_started_at = isoformat_created e1, m_ended_at = None,
            m_status = ''running'', m_waypoints_reached = {}, m_waypoints_unreachable = {},
            m_images_count = 3, m_last_status = None \<rparr>)])
   \<and> ((\<forall>x\<in>set ops. new_mission_id (fst x) \<noteq> k) \<and> images_of s' k = Some n \<longrightarrow>
        (\<exists>n'. images_of (run ops s') k = Some n' \<and> n \<le> n'))"
proof (intro conjI impI)
  assume "MISSIONS s = [] \<and> CURRENT_MISSION_ID s = None"
  then show "MISSIONS (run [(e1, RegisterImage)] s) =
        [(new_mission_id e1,
          \<lparr> m_id = new_mission_id e1, m_started_at = isoformat_created e1, m_ended_at = None,
            m_status = ''running'', m_waypoints_reached = {}, m_waypoints_unreachable = {},
            m_images_count = 1, m_last_status = None \<rparr>)]"
    by (simp add: unfold_all)
next
  assume "MISSIONS s = [] \<and> CURRENT_MISSION_ID s = None"
  then show "MISSIONS (run [(e1, RegisterImage), (e2, RegisterImage), (e3, RegisterImage)] s) =
        [(new_mission_id e1,
          \<lparr> m_id = new_mission_id e1, m_started_at = isoformat_created e1, m_ended_at = None,
            m_status = ''running'', m_waypoints_reached = {}, m_waypoints_unreachable = {},
            m_images_count = 3, m_last_status = None \<rparr>)]"
    by (simp add: unfold_all)
next
  assume "(\<forall>x\<in>set ops. new_mission_id (fst x) \<noteq> k) \<and> images_of s' k = Some n"
  then show "\<exists>n'. images_of (run ops s') k = Some n' \<and> n \<le> n'"
    using run_images[of ops k s' n] by blast
qed

lemma one_image_count: "images_of one_image ''mission_20251210_123456_ABCD12'' = Some 1"
  by (simp add: one_image_def images_of_def unfold_all init_state_def id_a)

theorem register_image_counts_witness:
  "MISSIONS init_state = [] \<and> CURRENT_MISSION_ID init_state = None
   \<and> images_of (run [(env_a, RegisterImage), (env_a, RegisterImage), (env_a, RegisterImage)]
                  init_state) ''mission_20251210_123456_ABCD12'' = Some 3
   \<and> images_of one_image ''mission_20251210_123456_ABCD12'' = Some 1
   \<and> (\<exists>n'. images_of (run [(env_b, RegisterImage), (env_b, StartMission),
                              (env_b, report ''mission_complete'')] one_image)
                ''mission_20251210_123456_ABCD12'' = Some n' \<and> 1 \<le> n')"
proof -
  have h: "MISSIONS init_state = [] \<and> CURRENT_MISSION_ID init_state = None"
    by (simp add: init_state_def)
  have f: "\<forall>x\<in>set [(env_b, RegisterImage), (env_b, StartMission),
                     (env_b, report ''mission_complete'')].
             new_mission_id (fst x) \<noteq> ''mission_20251210_123456_ABCD12''"
    by (simp add: id_b)
  note t = register_image_counts[of init_state env_a env_a env_a
      "[(env_b, RegisterImage), (env_b, StartMission), (env_b, report ''mission_complete'')]"
      "''mission_20251210_123456_ABCD12''" one_image 1]
  from t h have "MISSIONS (run [(env_a, RegisterImage), (env_a, RegisterImage),
        (env_a, RegisterImage)] init_state) =
        [(new_mission_id env_a,
          \<lparr> m_id = new_mission_id env_a, m_started_at = isoformat_created env_a, m_ended_at = None,
            m_status = ''running'', m_waypoints_reached = {}, m_waypoints_unreachable = {},
            m_images_count = 3, m_last_status = None \<rparr>)]"
    by blast
  then have a: "images_of (run [(env_a, RegisterImage), (env_a, RegisterImage), (env_a, RegisterImage)]
                  init_state) ''mission_20251210_123456_ABCD12'' = Some 3"
    by (simp add: images_of_def id_a)
  from t f one_image_count
  have b: "\<exists>n'. images_of (run [(env_b, RegisterImage), (env_b, StartMission),
                              (env_b, report ''mission_complete'')] one_image)
                ''mission_20251210_123456_ABCD12'' = Some n' \<and> 1 \<le> n'"
    by blast
  show ?thesis using h a b one_image_count by blast
qed

subsection \<open>Terminal states\<close>

lemma completed_mission_status:
  "status_of completed_mission ''mission_20251210_123456_ABCD12'' = Some ''complete''"
  "CURRENT_MISSION_ID completed_mission = Some ''mission_20251210_123456_ABCD12''"
  by (simp_all add: completed_mission_def status_of_def unfold_all init_state_def id_a)

text \<open>
  C3 as stated fails: nothing in \<^verbatim>\<open>_update_mission_on_status\<close> looks at the status a mission
  already has. A mission that is \<^verbatim>\<open>complete\<close> and still current is set back to \<^verbatim>\<open>running\<close>
  by a later \<^verbatim>\<open>mission_started\<close> report.
\<close>

theorem terminal_status_counterexample:
  "status_of completed_mission ''mission_20251210_123456_ABCD12'' = Some ''complete''
   \<and> status_of (run [(env_b, report ''mission_started'')] completed_mission)
         ''mission_20251210_123456_ABCD12'' = Some ''running''"
  by (simp add: completed_mission_def status_of_def unfold_all init_state_def id_a)

text \<open>
  C3, as the code has it. A mission whose status is \<^verbatim>\<open>complete\<close>, \<^verbatim>\<open>home_unreachable\<close> or
  \<^verbatim>\<open>aborted\<close> keeps that status over a sequence of requests, none of which generates the
  mission's id again, in two cases: the mission is not the current one (a new mission was
  started since), or no request of the sequence is a status report on which the code
  assigns the status (\<^verbatim>\<open>mission_started\<close>, \<^verbatim>\<open>mission_complete\<close>,
  \<^verbatim>\<open>mission_complete_after_abort\<close>, \<^verbatim>\<open>home_unreachable...\<close>, \<^verbatim>\<open>mission_aborted_by_operator\<close>).
  Image registrations, waypoint reports, unknown reports, commands and queries are all in
  the second case.
\<close>

theorem terminal_status_frame:
  assumes "status_of s k = Some st" and "terminal st"
      and "\<forall>x\<in>set ops. new_mission_id (fst x) \<noteq> k"
      and "CURRENT_MISSION_ID s \<noteq> Some k \<or> (\<forall>x\<in>set ops. \<not> transition_report (snd x))"
  shows "status_of (run ops s) k = Some st"
proof -
  have np: "st \<noteq> ''pending''" using assms(2) by (auto simp: terminal_def)
  from assms(4) show ?thesis
  proof
    assume "CURRENT_MISSION_ID s \<noteq> Some k"
    then show ?thesis using run_status_not_current[OF assms(3,1) np] by simp
  next
    assume "\<forall>x\<in>set ops. \<not> transition_report (snd x)"
    then show ?thesis using run_status_quiet[OF assms(3,1) np] by simp
  qed
qed

theorem terminal_status_frame_witness:
  "status_of completed_mission ''mission_20251210_123456_ABCD12'' = Some ''complete''
   \<and> terminal ''complete''
   \<and> status_of (run [(env_b, RegisterImage), (env_b, waypoint_report ''waypoint_reached'' 4),
                     (env_b, report ''battery_low''), (env_b, LastStatus),
                     (env_b, StartMission), (env_b, ReturnHome)] completed_mission)
        ''mission_20251210_123456_ABCD12'' = Some ''complete''
   \<and> CURRENT_MISSION_ID (run [(env_b, StartMission)] completed_mission)
        \<noteq> Some ''mission_20251210_123456_ABCD12''
   \<and> status_of (run [(env_b, report ''mission_started''),
                     (env_b, report ''mission_aborted_by_operator'')]
                  (run [(env_b, StartMission)] completed_mission))
        ''mission_20251210_123456_ABCD12'' = Some ''complete''"
proof -
  let ?k = "''mission_20251210_123456_ABCD12''"
  let ?quiet = "[(env_b, RegisterImage), (env_b, waypoint_report ''waypoint_reached'' 4),
                     (env_b, report ''battery_low''), (env_b, LastStatus),
                     (env_b, StartMission), (env_b, ReturnHome)]"
  let ?loud = "[(env_b, report ''mission_started''),
                     (env_b, report ''mission_aborted_by_operator'')]"
  have t: "terminal ''complete''" by (simp add: terminal_def)
  have f1: "\<forall>x\<in>set ?quiet. new_mission_id (fst x) \<noteq> ?k" by (simp add: id_b)
  have q: "\<forall>x\<in>set ?quiet. \<not> transition_report (snd x)"
    by (simp add: report_def waypoint_report_def read_payload_def dict_get_def
        transition_status_def)
  have 1: "status_of (run ?quiet completed_mission) ?k = Some ''complete''"
    using terminal_status_frame[OF completed_mission_status(1) t f1] q by blast
  let ?s = "run [(env_b, StartMission)] completed_mission"
  have c: "CURRENT_MISSION_ID ?s \<noteq> Some ?k"
    by (simp add: start_mission_frame id_b)
  have s: "status_of ?s ?k = Some ''complete''"
    using completed_mission_status(1) by (simp add: status_frames status_of_start id_b)
  have f2: "\<forall>x\<in>set ?loud. new_mission_id (fst x) \<noteq> ?k" by (simp add: id_b)
  have 2: "status_of (run ?loud ?s) ?k = Some ''complete''"
    using terminal_status_frame[OF s t f2] c by blast
  show ?thesis using completed_mission_status(1) t 1 c 2 by blast
qed

subsection \<open>Starting a mission from the control panel\<close>

text \<open>
  C10. \<^verbatim>\<open>/start_mission\<close> answers with the new mission id, files a new \<^verbatim>\<open>pending\<close> mission
  under it, makes it current, clears the terminal status and sets the start flag, so that the
  next \<^verbatim>\<open>/mission_state\<close> poll answers \<^verbatim>\<open>start\<close>. In the last-status dictionary it stores the
  new id under \<^verbatim>\<open>mission_id\<close> and keeps a \<^verbatim>\<open>status\<close> that is already there, writing
  \<^verbatim>\<open>mission_idle\<close> only when there is none.
\<close>

theorem start_mission_sets_flag:
  "snd (start_mission e s) =
      Inr (Json [(''ok'', JBool True), (''mission_id'', JStr (new_mission_id e))])
   \<and> map_of (MISSIONS (fst (start_mission e s))) (new_mission_id e) =
       Some \<lparr> m_id = new_mission_id e, m_started_at = isoformat_created e, m_ended_at = None,
              m_status = ''pending'', m_waypoints_reached = {}, m_waypoints_unreachable = {},
              m_images_count = 0, m_last_status = None \<rparr>
   \<and> CURRENT_MISSION_ID (fst (start_mission e s)) = Some (new_mission_id e)
   \<and> LAST_TERMINAL_STATUS (fst (start_mission e s)) = None
   \<and> MISSION_STATE (fst (start_mission e s)) = ''start''
   \<and> snd (mission_state (fst (start_mission e s))) = Inr (Json [(''mission_state'', JStr ''start'')])
   \<and> LAST_STATUS (fst (start_mission e s)) = LAST_STATUS s
   \<and> map_of (heap (fst (start_mission e s)) (LAST_STATUS s)) ''mission_id'' =
       Some (JStr (new_mission_id e))
   \<and> map_of (heap (fst (start_mission e s)) (LAST_STATUS s)) ''status'' =
       Some (dict_get (heap s (LAST_STATUS s)) ''status'' (JStr ''mission_idle''))"
  by (simp add: start_mission_def start_new_mission_def Let_def mission_state_def
      update_conv' setdefault_def dict_get_def split: option.splits)

theorem start_mission_sets_flag_witness:
  "snd (mission_state (fst (start_mission env_a init_state))) =
      Inr (Json [(''mission_state'', JStr ''start'')])
   \<and> map_of (heap (fst (start_mission env_a init_state)) 0) ''mission_id'' =
       Some (JStr ''mission_20251210_123456_ABCD12'')
   \<and> map_of (heap (fst (start_mission env_a init_state)) 0) ''status'' =
       Some (JStr ''mission_idle'')"
  using start_mission_sets_flag[of env_a init_state]
  by (simp add: id_a) (simp add: init_state_def dict_get_def)

subsection \<open>Reports without a mission\<close>

text \<open>
  C6. When no mission is current, a report whose status is not \<^verbatim>\<open>mission_started\<close> is
  answered with \<^verbatim>\<open>ok\<close> and creates no mission: the registry, the current mission id, the
  terminal status and the control command stay as they are. The report is still recorded:
  \<^verbatim>\<open>LAST_STATUS\<close> is a new dictionary, the payload with \<^verbatim>\<open>mission_state\<close> and
  \<^verbatim>\<open>mission_id\<close> filled in where absent, and no older dictionary is touched. (A
  \<^verbatim>\<open>mission_idle\<close> report also resets the start flag.)
\<close>

theorem report_without_mission_dropped:
  assumes "CURRENT_MISSION_ID s = None"
      and "read_payload b = JDict payload"
      and "map_of payload ''status'' \<noteq> Some (JStr ''mission_started'')"
  shows "snd (status_update e b s) = Inr (Json [(''ok'', JBool True)])
     \<and> MISSIONS (fst (status_update e b s)) = MISSIONS s
     \<and> CURRENT_MISSION_ID (fst (status_update e b s)) = None
     \<and> LAST_TERMINAL_STATUS (fst (status_update e b s)) = LAST_TERMINAL_STATUS s
     \<and> CONTROL_COMMAND (fst (status_update e b s)) = CONTROL_COMMAND s
     \<and> MISSION_STATE (fst (status_update e b s)) =
         (if map_of payload ''status'' = Some (JStr ''mission_idle'') then ''idle''
          else MISSION_STATE s)
     \<and> LAST_STATUS (fst (status_update e b s)) = next_addr s
     \<and> next_addr (fst (status_update e b s)) = Suc (next_addr s)
     \<and> heap (fst (status_update e b s)) =
         (heap s)(next_addr s :=
            setdefault ''mission_id'' (JStr em_dash)
              (setdefault ''mission_state'' (JStr (MISSION_STATE (fst (status_update e b s))))
                 payload))"
proof -
  have st: "map_of (defaulted ms s' payload) ''status'' = map_of payload ''status''" for ms s'
    by (simp add: defaulted_def setdefault_def update_conv' split: option.splits)
  show ?thesis
    using assms
    by (simp add: status_update_def store_payload_def Let_def update_mission_on_status_def
        no_current_def st dict_get_def split: option.splits)
       (auto simp: defaulted_def current_or_def)
qed

theorem report_without_mission_dropped_witness:
  "CURRENT_MISSION_ID init_state = None
   \<and> read_payload (Parsed (JDict [(''status'', JStr ''waypoint_reached''), (''index'', JInt 2)]))
       = JDict [(''status'', JStr ''waypoint_reached''), (''index'', JInt 2)]
   \<and> snd (status_update env_a
            (Parsed (JDict [(''status'', JStr ''waypoint_reached''), (''index'', JInt 2)]))
            init_state) = Inr (Json [(''ok'', JBool True)])
   \<and> MISSIONS (fst (status_update env_a
            (Parsed (JDict [(''status'', JStr ''waypoint_reached''), (''index'', JInt 2)]))
            init_state)) = []
   \<and> heap (fst (status_update env_a
            (Parsed (JDict [(''status'', JStr ''waypoint_reached''), (''index'', JInt 2)]))
            init_state)) 1 =
        [(''status'', JStr ''waypoint_reached''), (''index'', JInt 2),
         (''mission_state'', JStr ''idle''), (''mission_id'', JStr em_dash)]"
proof -
  let ?p = "[(''status'', JStr ''waypoint_reached''), (''index'', JInt 2)]"
  have h1: "CURRENT_MISSION_ID init_state = None" by (simp add: init_state_def)
  have h2: "read_payload (Parsed (JDict ?p)) = JDict ?p" by (simp add: read_payload_def)
  have h3: "map_of ?p ''status'' \<noteq> Some (JStr ''mission_started'')" by simp
  note t = report_without_mission_dropped[OF h1 h2 h3, of env_a]
  have m: "MISSION_STATE (fst (status_update env_a (Parsed (JDict ?p)) init_state)) = ''idle''"
    using t by (simp add: init_state_def)
  have hp: "heap (fst (status_update env_a (Parsed (JDict ?p)) init_state)) =
         (heap init_state)(next_addr init_state :=
            setdefault ''mission_id'' (JStr em_dash)
              (setdefault ''mission_state'' (JStr ''idle'') ?p))"
    using t unfolding m by blast
  have 5: "heap (fst (status_update env_a (Parsed (JDict ?p)) init_state)) 1 =
        [(''status'', JStr ''waypoint_reached''), (''index'', JInt 2),
         (''mission_state'', JStr ''idle''), (''mission_id'', JStr em_dash)]"
    unfolding hp by (simp add: init_state_def setdefault_def)
  have 4: "MISSIONS (fst (status_update env_a (Parsed (JDict ?p)) init_state)) = []"
    using t by (simp add: init_state_def)
  show ?thesis using h1 h2 t 4 5 by blast
qed

subsection \<open>Queries\<close>

text \<open>
  C8 as stated fails: after \<^verbatim>\<open>/start_mission\<close> on the fresh server, \<^verbatim>\<open>/last_status\<close> changes
  the state, since it writes \<^verbatim>\<open>mission_state\<close> and \<^verbatim>\<open>terminal_status\<close> into the
  \<^verbatim>\<open>LAST_STATUS\<close> dictionary.
\<close>

theorem last_status_counterexample:
  "fst (last_status started_server) \<noteq> started_server"
proof
  assume "fst (last_status started_server) = started_server"
  then have "heap (fst (last_status started_server)) 0 = heap started_server 0" by simp
  then show False
    by (simp add: last_status_def started_server_def start_mission_def start_new_mission_def
        Let_def init_state_def setdefault_def json_of_opt_def)
qed

text \<open>
  C8, as the code has it. \<^verbatim>\<open>/missions\<close> leaves the whole state as it is. \<^verbatim>\<open>/last_status\<close>
  changes nothing but the dictionary \<^verbatim>\<open>LAST_STATUS\<close> refers to: an empty one stays empty;
  a non-empty one gets \<^verbatim>\<open>terminal_status\<close> set to the current terminal status and
  \<^verbatim>\<open>mission_state\<close> and \<^verbatim>\<open>mission_id\<close> filled in where absent, all other keys as before.
  That dictionary is an object of the store, which a mission's \<^verbatim>\<open>last_status\<close> may refer
  to as well.
\<close>

theorem queries_frame:
  "fst (missions s) = s
   \<and> (\<exists>d. fst (last_status s) = s\<lparr> heap := (heap s)(LAST_STATUS s := d) \<rparr>
          \<and> (if heap s (LAST_STATUS s) = [] then d = []
              else map_of d =
                (map_of (heap s (LAST_STATUS s)))
                  (''mission_state'' \<mapsto>
                     dict_get (heap s (LAST_STATUS s)) ''mission_state'' (JStr (MISSION_STATE s)),
                   ''mission_id'' \<mapsto>
                     dict_get (heap s (LAST_STATUS s)) ''mission_id'' (JStr (current_or em_dash s)),
                   ''terminal_status'' \<mapsto> json_of_opt (LAST_TERMINAL_STATUS s))))"
proof
  show "fst (missions s) = s" by (simp add: missions_def Let_def)
next
  show "\<exists>d. fst (last_status s) = s\<lparr> heap := (heap s)(LAST_STATUS s := d) \<rparr>
          \<and> (if heap s (LAST_STATUS s) = [] then d = []
              else map_of d =
                (map_of (heap s (LAST_STATUS s)))
                  (''mission_state'' \<mapsto>
                     dict_get (heap s (LAST_STATUS s)) ''mission_state'' (JStr (MISSION_STATE s)),
                   ''mission_id'' \<mapsto>
                     dict_get (heap s (LAST_STATUS s)) ''mission_id'' (JStr (current_or em_dash s)),
                   ''terminal_status'' \<mapsto> json_of_opt (LAST_TERMINAL_STATUS s)))"
  proof (cases "heap s (LAST_STATUS s) = []")
    case True
    then have "(heap s)(LAST_STATUS s := []) = heap s"
      by (metis fun_upd_triv)
    then have "s\<lparr> heap := (heap s)(LAST_STATUS s := []) \<rparr> = s"
      by simp
    moreover have "fst (last_status s) = s"
      using True by (simp add: last_status_def Let_def)
    ultimately show ?thesis using True by auto
  next
    case False
    then show ?thesis
      by (auto simp: last_status_def Let_def update_conv' dict_get_def fun_upd_twist
          intro!: ext split: option.splits)
  qed
qed

theorem queries_frame_witness:
  "fst (missions started_server) = started_server
   \<and> (\<exists>d. fst (last_status started_server) = started_server\<lparr> heap := (heap started_server)(0 := d) \<rparr>
          \<and> map_of d ''terminal_status'' = Some JNull
          \<and> map_of d ''mission_state'' = Some (JStr ''start'')
          \<and> map_of d ''status'' = Some (JStr ''mission_idle''))"
proof -
  have s: "LAST_STATUS started_server = 0" "MISSION_STATE started_server = ''start''"
    "LAST_TERMINAL_STATUS started_server = None"
    "heap started_server 0 =
       [(''status'', JStr ''mission_idle''), (''mission_id'', JStr (new_mission_id env_a))]"
    by (simp_all add: started_server_def start_mission_def start_new_mission_def Let_def
        init_state_def setdefault_def)
  show ?thesis
    using queries_frame[of started_server]
    by (auto simp: s json_of_opt_def dict_get_def)
qed

end
